theory Spec2Isabelle
  imports Complex_Main "HOL-Library.AList"
begin

section \<open>Python values, errors and dictionaries\<close>

text \<open>
  The demo's dictionaries are typed \<^verbatim>\<open>Dict[str, Any]\<close>. The values that matter to the code
  are the scalars below; a \<^verbatim>\<open>float\<close> is idealised as a real number. A dictionary is an
  association list in insertion order, read with \<^const>\<open>map_of\<close>; a raised exception is the
  left summand of a result.
\<close>

datatype pyval = VNone | VBool bool | VInt int | VFloat real | VStr string

datatype error = IndexError | KeyError string | RuntimeError | TypeError

type_synonym pydict = "(string \<times> pyval) list"

definition dict_get :: "pydict \<Rightarrow> string \<Rightarrow> pyval \<Rightarrow> pyval" where
  "dict_get d k dflt = (case map_of d k of None \<Rightarrow> dflt | Some v \<Rightarrow> v)"

text \<open>
  \<^verbatim>\<open>v + 1\<close> and \<^verbatim>\<open>range(1, v)\<close> on a dynamically typed value: \<^verbatim>\<open>bool\<close> is a subclass of
  \<^verbatim>\<open>int\<close>, a \<^verbatim>\<open>float\<close> can be added to but is refused by \<^verbatim>\<open>range\<close>, and \<^verbatim>\<open>str\<close> and
  \<^verbatim>\<open>None\<close> cannot be added to an \<^verbatim>\<open>int\<close>.
\<close>

fun py_add_one :: "pyval \<Rightarrow> error + pyval" where
  "py_add_one (VInt n) = Inr (VInt (n + 1))"
| "py_add_one (VBool b) = Inr (VInt ((if b then 1 else 0) + 1))"
| "py_add_one (VFloat x) = Inr (VFloat (x + 1))"
| "py_add_one (VStr s) = Inl TypeError"
| "py_add_one VNone = Inl TypeError"

fun py_range_from_one :: "pyval \<Rightarrow> error + int list" where
  "py_range_from_one (VInt n) = Inr [1..n - 1]"
| "py_range_from_one (VBool b) = Inr [1..(if b then 1 else 0) - 1]"
| "py_range_from_one (VFloat x) = Inl TypeError"
| "py_range_from_one (VStr s) = Inl TypeError"
| "py_range_from_one VNone = Inl TypeError"

text \<open>Decimal rendering of an integer, as an f-string interpolates it.\<close>

definition digit_char :: "nat \<Rightarrow> char" where
  "digit_char d = ''0123456789'' ! d"

fun str_nat :: "nat \<Rightarrow> string" where
  "str_nat n = (if n < 10 then [digit_char n] else str_nat (n div 10) @ [digit_char (n mod 10)])"

declare str_nat.simps [simp del]

definition str_int :: "int \<Rightarrow> string" where
  "str_int i = (if i < 0 then CHR ''-'' # str_nat (nat (- i)) else str_nat (nat i))"

section \<open>Standard output\<close>

text \<open>
  Every \<^verbatim>\<open>print\<close> of the client appends one line to standard output. A line is kept as the
  format it comes from together with the values interpolated into it, so that no float has to
  be rendered.
\<close>

datatype output_line =
    Submitting_job string
  | Code_validation_passed
  | Resource_allocation
  | Executing_training
  | Epoch_progress int real real
  | Training_completed

type_synonym stdout = "output_line list"

definition print :: "output_line \<Rightarrow> stdout \<Rightarrow> stdout" where
  "print l out = out @ [l]"

section \<open>TrainingJob\<close>

record TrainingJob =
  name :: string
  code :: string
  data_source :: string
  requirements :: "string list"
  resources :: pydict
  reward_tokens :: int
  config :: pydict

text \<open>The constructor: \<^verbatim>\<open>self.config = config or {}\<close>.\<close>

definition TrainingJob_init ::
  "string \<Rightarrow> string \<Rightarrow> string \<Rightarrow> string list \<Rightarrow> pydict \<Rightarrow> int \<Rightarrow> pydict option \<Rightarrow> TrainingJob" where
  "TrainingJob_init n c ds reqs res reward cfg =
     \<lparr>name = n, code = c, data_source = ds, requirements = reqs, resources = res,
      reward_tokens = reward, config = (case cfg of None \<Rightarrow> [] | Some d \<Rightarrow> d)\<rparr>"

record constraints =
  max_memory_mb :: pyval
  max_execution_time_ms :: int
  allowed_imports :: "string list"

record instruction =
  instr_type :: string
  instr_code :: string
  input_tensors :: "(string \<times> int) list"
  output_tensors :: "(string \<times> int) list"
  instr_constraints :: constraints

text \<open>
  \<^verbatim>\<open>TrainingJob.to_vm_instructions\<close>: a list literal with one dictionary. The body prints
  nothing, assigns to no attribute and calls only \<^verbatim>\<open>dict.get\<close>, so it is a function of the
  job alone.
\<close>

definition to_vm_instructions :: "TrainingJob \<Rightarrow> instruction list" where
  "to_vm_instructions self =
     [\<lparr>instr_type = ''PythonExecute'',
       instr_code = code self,
       input_tensors = [(''data'', 1)],
       output_tensors = [(''model'', 2)],
       instr_constraints =
         \<lparr>max_memory_mb = dict_get (resources self) ''memory_mb'' (VInt 2048),
          max_execution_time_ms = 300000,
          allowed_imports = requirements self\<rparr>\<rparr>]"

section \<open>JobResult\<close>

record JobResult =
  job_id :: string
  success :: bool
  model_hash :: "string option"
  training_metrics :: pydict
  gas_used :: int
  reward_earned :: int
  error_message :: "string option"

text \<open>The constructor: \<^verbatim>\<open>self.training_metrics = training_metrics or {}\<close>.\<close>

definition JobResult_init ::
  "string \<Rightarrow> bool \<Rightarrow> string option \<Rightarrow> pydict option \<Rightarrow> int \<Rightarrow> int \<Rightarrow> string option \<Rightarrow> JobResult" where
  "JobResult_init jid ok mh tm gas reward err =
     \<lparr>job_id = jid, success = ok, model_hash = mh,
      training_metrics = (case tm of None \<Rightarrow> [] | Some d \<Rightarrow> d),
      gas_used = gas, reward_earned = reward, error_message = err\<rparr>"

section \<open>BCaiClient\<close>

text \<open>
  The loop of \<^verbatim>\<open>_simulate_job_execution\<close>: one progress line per epoch, with
  \<^verbatim>\<open>loss = 1.0 - (epoch * 0.08)\<close> and \<^verbatim>\<open>acc = min(0.95, epoch * 0.09)\<close>, computed
  in the reals (the conversion of the integer \<open>epoch\<close> to a float is taken to be exact).
\<close>

fun training_progress :: "int list \<Rightarrow> stdout \<Rightarrow> stdout" where
  "training_progress [] out = out"
| "training_progress (epoch # rest) out =
     training_progress rest
       (print (Epoch_progress epoch (1.0 - (of_int epoch * 0.08)) (min 0.95 (of_int epoch * 0.09))) out)"

text \<open>
  \<^verbatim>\<open>BCaiClient._simulate_job_execution\<close>. The three fixed lines are printed first; the bounds of
  \<^verbatim>\<open>range(1, job.config.get("epochs", 10) + 1)\<close> are then evaluated, which raises
  \<^verbatim>\<open>TypeError\<close> for a value that is not an integer. The result pairs what the call returns or
  raises with standard output as the call leaves it.
\<close>

definition simulate_job_execution :: "TrainingJob \<Rightarrow> stdout \<Rightarrow> (error + pydict) \<times> stdout" where
  "simulate_job_execution job out =
     (let out1 = print Code_validation_passed out;
          out2 = print Resource_allocation out1;
          out3 = print Executing_training out2
      in case py_add_one (dict_get (config job) ''epochs'' (VInt 10)) of
           Inl e \<Rightarrow> (Inl e, out3)
         | Inr stop \<Rightarrow>
             (case py_range_from_one stop of
                Inl e \<Rightarrow> (Inl e, out3)
              | Inr epochs \<Rightarrow>
                  (Inr [(''status'', VStr ''completed'')],
                   print Training_completed (training_progress epochs out3))))"

text \<open>
  \<^verbatim>\<open>BCaiClient.submit_job\<close>. The client object itself (\<^verbatim>\<open>node_url\<close>, \<^verbatim>\<open>session_id\<close>) is
  not read. Python's string hash is salted per process, so it is a parameter \<open>hash\<close>.
  The instruction list is computed and bound to a local name that is not used again; the
  simulated execution receives the job.
\<close>

definition submit_job :: "(string \<Rightarrow> int) \<Rightarrow> TrainingJob \<Rightarrow> stdout \<Rightarrow> (error + JobResult) \<times> stdout" where
  "submit_job hash job out =
     (let out1 = print (Submitting_job (name job)) out;
          instructions = to_vm_instructions job
      in case simulate_job_execution job out1 of
           (Inl e, out2) \<Rightarrow> (Inl e, out2)
         | (Inr result, out2) \<Rightarrow>
             (Inr (JobResult_init
                    (''job_'' @ str_int (hash (name job)))
                    True
                    (Some ''abc123def456'')
                    (Some [(''final_loss'', VFloat 0.15),
                           (''accuracy'', VFloat 0.92),
                           (''epochs'', dict_get (config job) ''epochs'' (VInt 10)),
                           (''execution_time_ms'', VInt 5000)])
                    1000
                    (reward_tokens job)
                    None),
              out2))"

section \<open>Federated averaging\<close>

text \<open>
  The demo carries \<^verbatim>\<open>federated_averaging\<close> in the training code of its federated job. A
  tensor is its dtype and shape with its elements in row-major order. A dtype is boolean,
  integer or floating: the floating dtypes are not told apart, since floats are idealised as
  reals (no rounding, no overflow, no NaN), and complex, sparse and cross-device tensors are
  left out.
  A \<^verbatim>\<open>state_dict\<close> maps parameter names to tensors; besides floating parameters it can hold
  integer buffers, such as the batch counter of a normalisation layer.
\<close>

datatype torch_dtype = Bool_dtype | Int_dtype | Float_dtype

record tensor =
  dtype :: torch_dtype
  shape :: "nat list"
  elems :: "real list"

type_synonym state_dict = "(string \<times> tensor) list"

text \<open>Type promotion: boolean below integer below floating.\<close>

fun promote :: "torch_dtype \<Rightarrow> torch_dtype \<Rightarrow> torch_dtype" where
  "promote Float_dtype d = Float_dtype"
| "promote d Float_dtype = Float_dtype"
| "promote Int_dtype d = Int_dtype"
| "promote d Int_dtype = Int_dtype"
| "promote Bool_dtype Bool_dtype = Bool_dtype"

text \<open>
  The result of \<^verbatim>\<open>torch.stack\<close> has shape \<open>N # s\<close> for \<open>N\<close> tensors of one shape \<open>s\<close>;
  it is kept as \<open>s\<close> and the list of its \<open>N\<close> slices along dimension 0, with the promoted
  dtype of the inputs. \<^verbatim>\<open>torch.stack\<close> raises \<^verbatim>\<open>RuntimeError\<close> on an empty list and on
  tensors of different shapes.
\<close>

record stacked =
  stacked_dtype :: torch_dtype
  slice_shape :: "nat list"
  slices :: "real list list"

definition torch_stack :: "tensor list \<Rightarrow> error + stacked" where
  "torch_stack ts =
     (case ts of
        [] \<Rightarrow> Inl RuntimeError
      | t # rest \<Rightarrow>
          if list_all (\<lambda>t'. shape t' = shape t) rest
          then Inr \<lparr>stacked_dtype = foldl promote (dtype t) (map dtype rest),
                    slice_shape = shape t, slices = map elems ts\<rparr>
          else Inl RuntimeError)"

text \<open>
  \<^verbatim>\<open>torch.mean(stacked_weights, dim=0)\<close>: for a floating input, position by position, the
  sum over the slices divided by their number, in the input's dtype. For an integer or boolean
  input \<^verbatim>\<open>torch.mean\<close> raises \<^verbatim>\<open>RuntimeError\<close>, since it cannot infer an output dtype.
\<close>

definition torch_mean_dim0 :: "stacked \<Rightarrow> error + tensor" where
  "torch_mean_dim0 st =
     (if stacked_dtype st = Float_dtype
      then Inr \<lparr>dtype = Float_dtype,
                shape = slice_shape st,
                elems = map (\<lambda>column. sum_list column / real (length (slices st)))
                          (transpose (slices st))\<rparr>
      else Inl RuntimeError)"

text \<open>The comprehension \<^verbatim>\<open>[client_weights[i][param_name] for i in range(len(client_weights))]\<close>:
  the first client without the key raises \<^verbatim>\<open>KeyError\<close>.\<close>

fun client_values :: "state_dict list \<Rightarrow> string \<Rightarrow> error + tensor list" where
  "client_values [] param_name = Inr []"
| "client_values (w # ws) param_name =
     (case map_of w param_name of
        None \<Rightarrow> Inl (KeyError param_name)
      | Some t \<Rightarrow>
          (case client_values ws param_name of
             Inl e \<Rightarrow> Inl e
           | Inr ts \<Rightarrow> Inr (t # ts)))"

text \<open>The loop over \<^verbatim>\<open>param_names\<close>, with \<^verbatim>\<open>averaged_weights\<close> as the accumulator.\<close>

fun averaging_loop :: "string list \<Rightarrow> state_dict list \<Rightarrow> state_dict \<Rightarrow> error + state_dict" where
  "averaging_loop [] client_weights averaged_weights = Inr averaged_weights"
| "averaging_loop (param_name # rest) client_weights averaged_weights =
     (case client_values client_weights param_name of
        Inl e \<Rightarrow> Inl e
      | Inr ts \<Rightarrow>
          (case torch_stack ts of
             Inl e \<Rightarrow> Inl e
           | Inr stacked_weights \<Rightarrow>
               (case torch_mean_dim0 stacked_weights of
                  Inl e \<Rightarrow> Inl e
                | Inr mean \<Rightarrow>
                    averaging_loop rest client_weights
                      (AList.update param_name mean averaged_weights))))"

text \<open>\<^verbatim>\<open>federated_averaging\<close>: \<^verbatim>\<open>client_weights[0]\<close> raises \<^verbatim>\<open>IndexError\<close> on an empty list;
  the parameter names are the keys of the first client.\<close>

definition federated_averaging :: "state_dict list \<Rightarrow> error + state_dict" where
  "federated_averaging client_weights =
     (case client_weights of
        [] \<Rightarrow> Inl IndexError
      | first # _ \<Rightarrow> averaging_loop (map fst first) client_weights [])"

section \<open>Worker updates and the weighted mean of the specification\<close>

text \<open>
  Modelled from the spec: the repository has no \<^verbatim>\<open>WorkerUpdate\<close>; the record follows the
  specification's data model (worker id, parameter mapping, sample-count weight, status).
\<close>

datatype worker_status = Ok | Timeout | Failed string

record WorkerUpdate =
  worker_id :: string
  update_params :: state_dict
  weight :: nat
  status :: worker_status

text \<open>Position \<open>j\<close> of the tensor a parameter mapping has at key \<open>k\<close>.\<close>

definition param_elem :: "state_dict \<Rightarrow> string \<Rightarrow> nat \<Rightarrow> real" where
  "param_elem w k j = elems (the (map_of w k)) ! j"

text \<open>
  Modelled from the spec: \<open>new[k] = \<Sum>(weight_i * update_i[k]) / \<Sum>(weight_i)\<close>, at
  position \<open>j\<close> of the tensor of key \<open>k\<close>; the repository does not implement it.
\<close>

definition weighted_mean_spec :: "WorkerUpdate list \<Rightarrow> string \<Rightarrow> nat \<Rightarrow> real" where
  "weighted_mean_spec ups k j =
     (\<Sum>u\<leftarrow>ups. real (weight u) * param_elem (update_params u) k j) / (\<Sum>u\<leftarrow>ups. real (weight u))"

text \<open>The arithmetic mean of the clients' values at position \<open>j\<close> of key \<open>k\<close>.\<close>

definition arithmetic_mean :: "state_dict list \<Rightarrow> string \<Rightarrow> nat \<Rightarrow> real" where
  "arithmetic_mean ws k j = (\<Sum>w\<leftarrow>ws. param_elem w k j) / real (length ws)"

section \<open>The ledger of the specification\<close>

text \<open>
  Modelled from the spec: the repository has no ledger. A \<^verbatim>\<open>RoundRecord\<close> is the
  specification's log entry (round index, worker statuses, state checksum, resource consumed,
  wall-clock duration); the ledger keeps, for each job id, the records charged so far.
\<close>

record RoundRecord =
  round_index :: nat
  statuses :: "worker_status list"
  state_checksum :: string
  resource_consumed :: nat
  wall_clock_duration :: nat

type_synonym ledger = "string \<Rightarrow> RoundRecord list"

text \<open>
  Modelled from the spec: \<^verbatim>\<open>charge(job_id, round_record)\<close>, absent from the repository;
  ``re-charging the same round index is a no-op'', otherwise the record is added to the job's
  account.
\<close>

definition charge :: "string \<Rightarrow> RoundRecord \<Rightarrow> ledger \<Rightarrow> ledger" where
  "charge jid rr l =
     (if round_index rr \<in> round_index ` set (l jid) then l
      else l(jid := l jid @ [rr]))"

text \<open>Modelled from the spec: the resource charged to a job so far, over the records of its
  account; the repository keeps no such account.\<close>

definition total_charged :: "ledger \<Rightarrow> string \<Rightarrow> nat" where
  "total_charged l jid = sum_list (map resource_consumed (l jid))"

text \<open>
  Modelled from the spec: what \<^verbatim>\<open>settle\<close> reads when a job terminates; the repository has no
  \<^verbatim>\<open>settle\<close>, no rounds and no resource accounting (its client copies \<^verbatim>\<open>reward_tokens\<close> into
  the result). The base reward is the job's reward-token budget, a non-negative integer; the
  factor of the penalty is left open by the specification and is a field here.
\<close>

record settlement =
  base_reward :: nat
  rounds_completed :: nat
  rounds_configured :: nat
  resource_used :: nat
  resource_envelope :: nat
  penalty_rate :: real

text \<open>
  Modelled from the spec: ``\<open>completion_fraction\<close> is rounds-completed-successfully divided
  by rounds-configured''; absent from the repository. With no round configured the quotient is
  0 here, a case the specification leaves open.
\<close>

definition completion_fraction :: "settlement \<Rightarrow> real" where
  "completion_fraction a = real (rounds_completed a) / real (rounds_configured a)"

text \<open>
  Modelled from the spec: ``\<open>resource_penalty\<close> is proportional to total resource consumed
  beyond the job's declared envelope (zero if within envelope)''; absent from the repository.
\<close>

definition resource_penalty :: "settlement \<Rightarrow> real" where
  "resource_penalty a =
     (if resource_used a \<le> resource_envelope a then 0
      else penalty_rate a * real (resource_used a - resource_envelope a))"

text \<open>
  Modelled from the spec: \<^verbatim>\<open>settle\<close>, ``computed once at job termination as
  \<open>base_reward * completion_fraction - resource_penalty\<close>'' and ``never returns a negative
  reward; floors at zero''; absent from the repository.
\<close>

definition settle :: "settlement \<Rightarrow> real" where
  "settle a = max 0 (real (base_reward a) * completion_fraction a - resource_penalty a)"

section \<open>Notions used in the statements\<close>

text \<open>One pass of the loop body of \<^verbatim>\<open>federated_averaging\<close> for one parameter name:
  collect, stack, average.\<close>

definition averaged_param :: "state_dict list \<Rightarrow> string \<Rightarrow> error + tensor" where
  "averaged_param ws k =
     (case client_values ws k of
        Inl e \<Rightarrow> Inl e
      | Inr ts \<Rightarrow> (case torch_stack ts of Inl e \<Rightarrow> Inl e | Inr st \<Rightarrow> torch_mean_dim0 st))"

text \<open>Every client has key \<open>k\<close>, with a tensor of the shape the first client has there.\<close>

definition key_compatible :: "state_dict \<Rightarrow> state_dict list \<Rightarrow> string \<Rightarrow> bool" where
  "key_compatible first ws k =
     list_all (\<lambda>w. case map_of w k of
                      None \<Rightarrow> False
                    | Some t \<Rightarrow> (case map_of first k of None \<Rightarrow> False | Some t0 \<Rightarrow> shape t = shape t0)) ws"

text \<open>There is a first client, and every client is compatible with it on each of its keys.\<close>

definition compatible :: "state_dict list \<Rightarrow> bool" where
  "compatible ws =
     (case ws of [] \<Rightarrow> False | first # _ \<Rightarrow> list_all (key_compatible first ws) (map fst first))"

text \<open>A tensor has as many elements as its shape says.\<close>

definition well_formed :: "tensor \<Rightarrow> bool" where
  "well_formed t = (length (elems t) = prod_list (shape t))"

definition well_formed_dict :: "state_dict \<Rightarrow> bool" where
  "well_formed_dict d = list_all (\<lambda>(k, t). well_formed t) d"

text \<open>Every tensor of a parameter mapping has a floating dtype.\<close>

definition floating_dict :: "state_dict \<Rightarrow> bool" where
  "floating_dict d = list_all (\<lambda>(k, t). dtype t = Float_dtype) d"

text \<open>
  Modelled from the spec: aggregation consumes the updates whose status is \<open>ok\<close>; failed
  and timed-out updates are excluded from averaging. The repository has no status: its caller
  passes the parameter mappings of all clients.
\<close>

definition ok_updates :: "WorkerUpdate list \<Rightarrow> WorkerUpdate list" where
  "ok_updates ups = filter (\<lambda>u. status u = Ok) ups"

text \<open>
  Modelled from the spec: the quorum, a minimum number of \<open>ok\<close> updates required to
  aggregate a round; the repository has no such threshold.
\<close>

definition quorum_met :: "nat \<Rightarrow> WorkerUpdate list \<Rightarrow> bool" where
  "quorum_met min_workers ups = (min_workers \<le> length (ok_updates ups))"

text \<open>What \<^verbatim>\<open>job.config.get("epochs", 10)\<close> evaluates to, and whether \<^verbatim>\<open>range\<close> accepts it
  (after \<^verbatim>\<open>+ 1\<close>), with its integer value.\<close>

definition epochs_value :: "TrainingJob \<Rightarrow> pyval" where
  "epochs_value job = dict_get (config job) ''epochs'' (VInt 10)"

fun is_int :: "pyval \<Rightarrow> bool" where
  "is_int (VInt n) = True"
| "is_int (VBool b) = True"
| "is_int v = False"

fun int_of :: "pyval \<Rightarrow> int" where
  "int_of (VInt n) = n"
| "int_of (VBool b) = (if b then 1 else 0)"
| "int_of v = 0"

definition fixed_lines :: stdout where
  "fixed_lines = [Code_validation_passed, Resource_allocation, Executing_training]"

section \<open>Example inputs\<close>

text \<open>A stand-in for the interpreter's string hash in the examples.\<close>

definition length_hash :: "string \<Rightarrow> int" where
  "length_hash s = int (length s)"

text \<open>Modelled from the spec: an allow-list of imports; the repository has none.\<close>

definition example_allow_list :: "string list" where
  "example_allow_list =
     [''torch>=2.0.0'', ''transformers>=4.35.0'', ''datasets>=2.14.0'', ''numpy>=1.21.0'']"

text \<open>The job of \<^verbatim>\<open>demo_transformer_training\<close>, its training code shortened to one line,
  and variants of it.\<close>

definition transformer_job :: TrainingJob where
  "transformer_job =
     TrainingJob_init ''transformer-language-model'' ''model_weights = train_model()''
       ''huggingface://wikitext-103''
       [''torch>=2.0.0'', ''transformers>=4.35.0'', ''datasets>=2.14.0'']
       [(''gpu_memory_gb'', VInt 16), (''cpu_cores'', VInt 8), (''memory_gb'', VInt 32)]
       1500
       (Some [(''epochs'', VInt 10), (''batch_size'', VInt 32), (''learning_rate'', VFloat 0.0001)])"

definition job_disallowed :: TrainingJob where
  "job_disallowed = transformer_job\<lparr>requirements := [''subprocess'']\<rparr>"

definition job_negative_reward :: TrainingJob where
  "job_negative_reward = transformer_job\<lparr>reward_tokens := - 5\<rparr>"

definition job_same_name :: TrainingJob where
  "job_same_name = transformer_job\<lparr>code := ''pass'', reward_tokens := 7\<rparr>"

definition job_text_epochs :: TrainingJob where
  "job_text_epochs = transformer_job\<lparr>config := [(''epochs'', VStr ''ten'')]\<rparr>"

definition job_other_limits :: TrainingJob where
  "job_other_limits = transformer_job\<lparr>requirements := [], resources := [(''memory_mb'', VInt 1)]\<rparr>"

text \<open>The updates of the specification's scenario: two workers with values 2 and 4 for
  \<open>a\<close> and weight 1, a third that timed out; the second with weight 3 instead; and an
  update that holds an integer batch counter.\<close>

definition scalar :: "real \<Rightarrow> tensor" where
  "scalar x = \<lparr>dtype = Float_dtype, shape = [], elems = [x]\<rparr>"

definition int_scalar :: "int \<Rightarrow> tensor" where
  "int_scalar n = \<lparr>dtype = Int_dtype, shape = [], elems = [of_int n]\<rparr>"

definition update_w1 :: WorkerUpdate where
  "update_w1 = \<lparr>worker_id = ''w1'', update_params = [(''a'', scalar 2)], weight = 1, status = Ok\<rparr>"

definition update_w2 :: WorkerUpdate where
  "update_w2 = \<lparr>worker_id = ''w2'', update_params = [(''a'', scalar 4)], weight = 1, status = Ok\<rparr>"

definition update_w2_heavy :: WorkerUpdate where
  "update_w2_heavy = \<lparr>worker_id = ''w2'', update_params = [(''a'', scalar 4)], weight = 3, status = Ok\<rparr>"

definition update_counter :: WorkerUpdate where
  "update_counter =
     \<lparr>worker_id = ''w1'', update_params = [(''num_batches_tracked'', int_scalar 7)],
      weight = 1, status = Ok\<rparr>"

definition update_w3 :: WorkerUpdate where
  "update_w3 = \<lparr>worker_id = ''w3'', update_params = [], weight = 1, status = Timeout\<rparr>"

text \<open>A ledger with nothing charged, and two records for round 0 of one job.\<close>

definition empty_ledger :: ledger where
  "empty_ledger = (\<lambda>jid. [])"

definition round0 :: RoundRecord where
  "round0 = \<lparr>round_index = 0, statuses = [Ok, Ok, Timeout], state_checksum = ''c0'',
             resource_consumed = 1000, wall_clock_duration = 5000\<rparr>"

definition round0_retry :: RoundRecord where
  "round0_retry = \<lparr>round_index = 0, statuses = [Ok, Ok, Ok], state_checksum = ''c1'',
                   resource_consumed = 1200, wall_clock_duration = 4000\<rparr>"

text \<open>Two terminated jobs with a budget of 1500 tokens and 8 of 10 rounds completed: one
  within its envelope, one far beyond it.\<close>

definition settlement_within :: settlement where
  "settlement_within =
     \<lparr>base_reward = 1500, rounds_completed = 8, rounds_configured = 10,
      resource_used = 900, resource_envelope = 1000, penalty_rate = 1\<rparr>"

definition settlement_beyond :: settlement where
  "settlement_beyond =
     \<lparr>base_reward = 1500, rounds_completed = 8, rounds_configured = 10,
      resource_used = 5000, resource_envelope = 1000, penalty_rate = 1\<rparr>"

lemmas example_jobs = transformer_job_def job_disallowed_def job_negative_reward_def
  job_same_name_def job_text_epochs_def job_other_limits_def TrainingJob_init_def

lemmas example_updates = update_w1_def update_w2_def update_w2_heavy_def update_w3_def
  update_counter_def scalar_def int_scalar_def

lemmas averaging_defs = federated_averaging_def torch_stack_def torch_mean_dim0_def

section \<open>Lemmas about the client\<close>

lemma simulate_int:
  "is_int (epochs_value job) \<Longrightarrow>
     simulate_job_execution job out =
       (Inr [(''status'', VStr ''completed'')],
        training_progress [1..int_of (epochs_value job)] (out @ fixed_lines) @ [Training_completed])"
  by (cases "epochs_value job")
     (simp_all add: simulate_job_execution_def epochs_value_def print_def fixed_lines_def)

lemma simulate_not_int:
  "\<not> is_int (epochs_value job) \<Longrightarrow>
     simulate_job_execution job out = (Inl TypeError, out @ fixed_lines)"
  by (cases "epochs_value job")
     (simp_all add: simulate_job_execution_def epochs_value_def print_def fixed_lines_def)

lemma submit_job_int:
  "is_int (epochs_value job) \<Longrightarrow>
     submit_job hash job out =
       (Inr \<lparr>job_id = ''job_'' @ str_int (hash (name job)),
             success = True,
             model_hash = Some ''abc123def456'',
             training_metrics = [(''final_loss'', VFloat 0.15), (''accuracy'', VFloat 0.92),
                                 (''epochs'', epochs_value job), (''execution_time_ms'', VInt 5000)],
             gas_used = 1000,
             reward_earned = reward_tokens job,
             error_message = None\<rparr>,
        training_progress [1..int_of (epochs_value job)]
          (out @ Submitting_job (name job) # fixed_lines) @ [Training_completed])"
  by (simp add: submit_job_def simulate_int JobResult_init_def print_def epochs_value_def [symmetric])

lemma submit_job_not_int:
  "\<not> is_int (epochs_value job) \<Longrightarrow>
     submit_job hash job out = (Inl TypeError, out @ Submitting_job (name job) # fixed_lines)"
  by (simp add: submit_job_def simulate_not_int print_def)

lemma transformer_epochs [simp]:
  "epochs_value transformer_job = VInt 10"
  "epochs_value job_disallowed = VInt 10"
  "epochs_value job_negative_reward = VInt 10"
  "epochs_value job_same_name = VInt 10"
  "epochs_value job_other_limits = VInt 10"
  "epochs_value job_text_epochs = VStr ''ten''"
  by (simp_all add: example_jobs epochs_value_def dict_get_def)

lemma in_training_progress: "l \<in> set out \<Longrightarrow> l \<in> set (training_progress es out)"
  by (induction es arbitrary: out) (auto simp: print_def)

subsection \<open>Decimal rendering is injective\<close>

lemma digit_char_code: "a < 10 \<Longrightarrow> (of_char (digit_char a) :: nat) = 48 + a"
proof -
  assume "a < 10"
  then have "a \<in> {0, 1, 2, 3, 4, 5, 6, 7, 8, 9}" by auto
  then show ?thesis by (auto simp: digit_char_def)
qed

lemma digit_char_inj: "a < 10 \<Longrightarrow> b < 10 \<Longrightarrow> digit_char a = digit_char b \<Longrightarrow> a = b"
proof -
  assume a: "a < 10" and b: "b < 10" and eq: "digit_char a = digit_char b"
  have "48 + a = (of_char (digit_char a) :: nat)" using a by (simp only: digit_char_code)
  also have "\<dots> = of_char (digit_char b)" by (simp only: eq)
  also have "\<dots> = 48 + b" using b by (simp only: digit_char_code)
  finally show "a = b" by linarith
qed

lemma digit_char_not_minus: "a < 10 \<Longrightarrow> digit_char a \<noteq> CHR ''-''"
proof
  assume a: "a < 10" and eq: "digit_char a = CHR ''-''"
  have "48 + a = (of_char (digit_char a) :: nat)" using a by (simp only: digit_char_code)
  also have "\<dots> = of_char (CHR ''-'')" by (simp only: eq)
  also have "\<dots> = 45" by simp
  finally show False by linarith
qed

lemma str_nat_nonempty: "str_nat n \<noteq> []"
  by (subst str_nat.simps) simp

lemma str_nat_digits: "c \<in> set (str_nat n) \<Longrightarrow> c \<noteq> CHR ''-''"
proof (induction n arbitrary: c rule: str_nat.induct)
  case (1 n)
  show ?case
  proof (cases "n < 10")
    case True
    with "1.prems" show ?thesis
      by (subst (asm) str_nat.simps) (simp add: digit_char_not_minus)
  next
    case False
    with "1.prems" have "c \<in> set (str_nat (n div 10)) \<or> c = digit_char (n mod 10)"
      by (subst (asm) str_nat.simps) auto
    then show ?thesis
      using "1.IH" [OF False] digit_char_not_minus [of "n mod 10"] by auto
  qed
qed

lemma str_nat_inj: "str_nat m = str_nat n \<Longrightarrow> m = n"
proof (induction m arbitrary: n rule: str_nat.induct)
  case (1 m)
  show ?case
  proof (cases "m < 10")
    case m: True
    show ?thesis
    proof (cases "n < 10")
      case True
      with m "1.prems" show ?thesis
        by (subst (asm) str_nat.simps, subst (asm) (2) str_nat.simps) (simp add: digit_char_inj)
    next
      case False
      have "str_nat n = str_nat (n div 10) @ [digit_char (n mod 10)]"
        using False by (subst str_nat.simps) simp
      moreover have "str_nat m = [digit_char m]" using m by (subst str_nat.simps) simp
      ultimately show ?thesis using "1.prems" str_nat_nonempty [of "n div 10"] by simp
    qed
  next
    case m: False
    have sm: "str_nat m = str_nat (m div 10) @ [digit_char (m mod 10)]"
      using m by (subst str_nat.simps) simp
    show ?thesis
    proof (cases "n < 10")
      case True
      then have "str_nat n = [digit_char n]" by (subst str_nat.simps) simp
      with sm "1.prems" str_nat_nonempty [of "m div 10"] show ?thesis by simp
    next
      case False
      then have sn: "str_nat n = str_nat (n div 10) @ [digit_char (n mod 10)]"
        by (subst str_nat.simps) simp
      from sm sn "1.prems" have d: "str_nat (m div 10) = str_nat (n div 10)"
        and c: "digit_char (m mod 10) = digit_char (n mod 10)" by simp_all
      from "1.IH" [OF m d] have "m div 10 = n div 10" .
      moreover from c have "m mod 10 = n mod 10" by (intro digit_char_inj) simp_all
      ultimately show ?thesis by (metis div_mult_mod_eq)
    qed
  qed
qed

lemma str_int_inj: "str_int i = str_int j \<Longrightarrow> i = j"
proof -
  assume eq: "str_int i = str_int j"
  have hd_nat: "\<And>n. hd (str_nat n) \<noteq> CHR ''-''"
    using str_nat_digits str_nat_nonempty by (metis hd_in_set)
  show "i = j"
  proof (cases "i < 0")
    case i: True
    show ?thesis
    proof (cases "j < 0")
      case True
      with i eq have "str_nat (nat (- i)) = str_nat (nat (- j))" by (simp add: str_int_def)
      then have "nat (- i) = nat (- j)" by (rule str_nat_inj)
      with i True show ?thesis by simp
    next
      case False
      with i eq have "CHR ''-'' # str_nat (nat (- i)) = str_nat (nat j)" by (simp add: str_int_def)
      then have "hd (str_nat (nat j)) = CHR ''-''" by (metis list.sel(1))
      with hd_nat show ?thesis by blast
    qed
  next
    case i: False
    show ?thesis
    proof (cases "j < 0")
      case True
      with i eq have "str_nat (nat i) = CHR ''-'' # str_nat (nat (- j))" by (simp add: str_int_def)
      then have "hd (str_nat (nat i)) = CHR ''-''" by (metis list.sel(1))
      with hd_nat show ?thesis by blast
    next
      case False
      with i eq have "str_nat (nat i) = str_nat (nat j)" by (simp add: str_int_def)
      then have "nat i = nat j" by (rule str_nat_inj)
      with i False show ?thesis by simp
    qed
  qed
qed

section \<open>Lemmas about federated averaging\<close>

lemma averaging_loop_step:
  "averaging_loop (k # ks) ws acc =
     (case averaged_param ws k of Inl e \<Rightarrow> Inl e | Inr t \<Rightarrow> averaging_loop ks ws (AList.update k t acc))"
  by (simp add: averaged_param_def split: sum.splits)

lemma client_values_present:
  "\<forall>w\<in>set ws. map_of w k \<noteq> None \<Longrightarrow> client_values ws k = Inr (map (\<lambda>w. the (map_of w k)) ws)"
  by (induction ws) auto

lemma client_values_Inr:
  "client_values ws k = Inr ts \<Longrightarrow>
     (\<forall>w\<in>set ws. map_of w k \<noteq> None) \<and> ts = map (\<lambda>w. the (map_of w k)) ws"
  by (induction ws arbitrary: ts) (auto split: option.splits sum.splits)

lemma client_values_Inl:
  "client_values ws k = Inl e \<Longrightarrow> e = KeyError k \<and> (\<exists>w\<in>set ws. map_of w k = None)"
  by (induction ws) (auto split: option.splits sum.splits)

lemma averaging_loop_map_of:
  "averaging_loop ks ws acc = Inr r \<Longrightarrow>
     map_of r k = (if k \<in> set ks then Some (projr (averaged_param ws k)) else map_of acc k)"
proof (induction ks arbitrary: acc)
  case Nil
  then show ?case by simp
next
  case (Cons a ks)
  then show ?case
    by (auto simp: averaging_loop_step update_conv' split: sum.splits simp del: averaging_loop.simps)
qed

lemma update_fresh: "k \<notin> fst ` set al \<Longrightarrow> AList.update k v al = al @ [(k, v)]"
  by (induction al) auto

lemma averaging_loop_distinct:
  "distinct ks \<Longrightarrow> set ks \<inter> fst ` set acc = {} \<Longrightarrow> averaging_loop ks ws acc = Inr r \<Longrightarrow>
     r = acc @ map (\<lambda>k. (k, projr (averaged_param ws k))) ks"
proof (induction ks arbitrary: acc)
  case Nil
  then show ?case by simp
next
  case (Cons a ks)
  from Cons.prems obtain t where t: "averaged_param ws a = Inr t"
    and rest: "averaging_loop ks ws (AList.update a t acc) = Inr r"
    by (auto simp: averaging_loop_step split: sum.splits simp del: averaging_loop.simps)
  from Cons.prems have fresh: "a \<notin> fst ` set acc" by auto
  have upd: "AList.update a t acc = acc @ [(a, t)]" using fresh by (rule update_fresh)
  have "set ks \<inter> fst ` set (acc @ [(a, t)]) = {}" using Cons.prems by auto
  with Cons.IH [of "acc @ [(a, t)]"] Cons.prems rest upd
  have "r = (acc @ [(a, t)]) @ map (\<lambda>k. (k, projr (averaged_param ws k))) ks" by simp
  then show ?case using t by simp
qed

lemma averaging_loop_total:
  "(\<exists>r. averaging_loop ks ws acc = Inr r) \<longleftrightarrow> (\<forall>k\<in>set ks. \<exists>t. averaged_param ws k = Inr t)"
proof (induction ks arbitrary: acc)
  case Nil
  then show ?case by simp
next
  case (Cons a ks)
  then show ?case
    by (cases "averaged_param ws a") (simp_all add: averaging_loop_step del: averaging_loop.simps)
qed

lemma averaging_loop_error:
  "averaging_loop ks ws acc = Inl e \<Longrightarrow> e = RuntimeError \<or> (\<exists>k. e = KeyError k)"
proof (induction ks arbitrary: acc)
  case Nil
  then show ?case by simp
next
  case (Cons a ks)
  then show ?case
    by (auto simp: torch_stack_def torch_mean_dim0_def
             split: sum.splits list.splits if_splits dest: client_values_Inl)
qed

lemma transpose_single: "transpose [xs] = map (\<lambda>x. [x]) xs"
  by (induction xs) auto

lemma mean_single:
  "dtype t = Float_dtype \<Longrightarrow>
     torch_mean_dim0 \<lparr>stacked_dtype = Float_dtype, slice_shape = shape t, slices = [elems t]\<rparr> = Inr t"
  by (simp add: torch_mean_dim0_def transpose_single comp_def)

lemma promote_floats:
  "\<forall>d\<in>set ds. d = Float_dtype \<Longrightarrow> foldl promote Float_dtype ds = Float_dtype"
  by (induction ds) auto

lemma floating_lookup: "floating_dict w \<Longrightarrow> map_of w k = Some t \<Longrightarrow> dtype t = Float_dtype"
  by (auto simp: floating_dict_def list_all_iff dest: map_of_SomeD)

lemma averaged_param_compatible:
  assumes c: "key_compatible first (first # rest) k"
    and fl: "\<forall>w\<in>set (first # rest). floating_dict w"
  shows "averaged_param (first # rest) k =
       Inr \<lparr>dtype = Float_dtype,
            shape = shape (the (map_of first k)),
            elems = map (\<lambda>column. sum_list column / real (Suc (length rest)))
                      (transpose (map (\<lambda>w. elems (the (map_of w k))) (first # rest)))\<rparr>"
proof -
  from c have pres: "\<forall>w\<in>set (first # rest). map_of w k \<noteq> None"
    by (auto simp: key_compatible_def list_all_iff split: option.splits)
  have shapes: "\<forall>w\<in>set rest. shape (the (map_of w k)) = shape (the (map_of first k))"
    using c by (auto simp: key_compatible_def list_all_iff split: option.splits)
  have floats: "\<forall>w\<in>set (first # rest). dtype (the (map_of w k)) = Float_dtype"
  proof
    fix w assume w: "w \<in> set (first # rest)"
    with pres obtain t where t: "map_of w k = Some t" by auto
    from fl w have "floating_dict w" by blast
    from floating_lookup [OF this t] t show "dtype (the (map_of w k)) = Float_dtype" by simp
  qed
  have cv: "client_values (first # rest) k = Inr (map (\<lambda>w. the (map_of w k)) (first # rest))"
    using pres by (rule client_values_present)
  have pr: "foldl promote (dtype (the (map_of first k))) (map (\<lambda>w. dtype (the (map_of w k))) rest) =
            Float_dtype"
    using floats promote_floats [of "map (\<lambda>w. dtype (the (map_of w k))) rest"] by auto
  have st: "torch_stack (map (\<lambda>w. the (map_of w k)) (first # rest)) =
      Inr \<lparr>stacked_dtype = Float_dtype,
           slice_shape = shape (the (map_of first k)),
           slices = map (\<lambda>w. elems (the (map_of w k))) (first # rest)\<rparr>"
    using shapes pr by (simp add: torch_stack_def list_all_iff comp_def)
  show ?thesis
    unfolding averaged_param_def cv using st by (simp add: torch_mean_dim0_def)
qed

lemma averaged_param_Inr_compatible:
  assumes "averaged_param (first # rest) k = Inr t"
  shows "key_compatible first (first # rest) k"
proof -
  from assms obtain ts st where cv: "client_values (first # rest) k = Inr ts"
    and stk: "torch_stack ts = Inr st"
    by (auto simp: averaged_param_def split: sum.splits)
  from client_values_Inr [OF cv]
  have pres: "\<forall>w\<in>set (first # rest). map_of w k \<noteq> None"
    and ts: "ts = map (\<lambda>w. the (map_of w k)) (first # rest)" by blast+
  from stk ts have "\<forall>w\<in>set rest. shape (the (map_of w k)) = shape (the (map_of first k))"
    by (auto simp: torch_stack_def list_all_iff split: if_splits)
  with pres show ?thesis
    by (auto simp: key_compatible_def list_all_iff split: option.splits)
qed

lemma federated_averaging_succeeds:
  assumes "compatible ws" and "\<forall>w\<in>set ws. floating_dict w"
  shows "\<exists>r. federated_averaging ws = Inr r"
proof (cases ws)
  case Nil
  with assms(1) show ?thesis by (simp add: compatible_def)
next
  case (Cons first rest)
  have "\<forall>k\<in>set (map fst first). key_compatible first ws k"
    using assms(1) Cons by (simp add: compatible_def list_all_iff)
  then have "\<forall>k\<in>set (map fst first). \<exists>t. averaged_param ws k = Inr t"
    using averaged_param_compatible [of first rest] assms(2) Cons by blast
  then show ?thesis
    using Cons by (simp add: federated_averaging_def averaging_loop_total del: averaging_loop.simps)
qed

lemma foldr_max_rect:
  "\<forall>r\<in>set rows. length r = m \<Longrightarrow>
     foldr (\<lambda>xs. max (length xs)) rows 0 = (if rows = [] then 0 else m)"
  by (induction rows) auto

lemma length_transpose_rect:
  "rows \<noteq> [] \<Longrightarrow> \<forall>r\<in>set rows. length r = m \<Longrightarrow> length (transpose rows) = m"
  using foldr_max_rect [of rows m] by (simp add: length_transpose)

lemma mean_columns:
  assumes "rows \<noteq> []" and "\<forall>r\<in>set rows. length r = m"
  shows "map (\<lambda>column. sum_list column / c) (transpose rows) =
         map (\<lambda>j. (\<Sum>r\<leftarrow>rows. r ! j) / c) [0..<m]"
proof (rule nth_equalityI)
  show "length (map (\<lambda>column. sum_list column / c) (transpose rows)) =
        length (map (\<lambda>j. (\<Sum>r\<leftarrow>rows. r ! j) / c) [0..<m])"
    using length_transpose_rect [OF assms] by simp
next
  fix i assume "i < length (map (\<lambda>column. sum_list column / c) (transpose rows))"
  then have i: "i < length (transpose rows)" by simp
  then have im: "i < m" using length_transpose_rect [OF assms] by simp
  have "filter (\<lambda>ys. i < length ys) rows = rows"
    using assms im by (simp add: filter_id_conv)
  then have "transpose rows ! i = map (\<lambda>xs. xs ! i) rows"
    using nth_transpose [OF i] by simp
  then show "map (\<lambda>column. sum_list column / c) (transpose rows) ! i =
             map (\<lambda>j. (\<Sum>r\<leftarrow>rows. r ! j) / c) [0..<m] ! i"
    using i im by simp
qed

lemma well_formed_lookup:
  "well_formed_dict w \<Longrightarrow> map_of w k = Some t \<Longrightarrow> length (elems t) = prod_list (shape t)"
  by (auto simp: well_formed_dict_def well_formed_def list_all_iff dest: map_of_SomeD)

lemma weighted_equals_arithmetic:
  assumes "\<forall>u\<in>set ups. weight u = c" and "0 < c"
  shows "weighted_mean_spec ups k j = arithmetic_mean (map update_params ups) k j"
proof -
  have num: "(\<Sum>u\<leftarrow>ups. real (weight u) * param_elem (update_params u) k j) =
             real c * (\<Sum>u\<leftarrow>ups. param_elem (update_params u) k j)"
    using assms(1) by (induction ups) (auto simp: algebra_simps)
  have den: "(\<Sum>u\<leftarrow>ups. real (weight u)) = real c * real (length ups)"
    using assms(1) by (induction ups) (auto simp: algebra_simps)
  show ?thesis
    unfolding weighted_mean_spec_def arithmetic_mean_def num den
    using assms(2) by (simp add: comp_def)
qed

lemma federated_averaging_key:
  assumes comp: "compatible (first # rest)"
    and wf: "\<forall>w\<in>set (first # rest). well_formed_dict w"
    and fl: "\<forall>w\<in>set (first # rest). floating_dict w"
    and k: "k \<in> fst ` set first"
  shows "\<exists>new t. federated_averaging (first # rest) = Inr new \<and> map_of new k = Some t \<and>
           dtype t = Float_dtype \<and>
           shape t = shape (the (map_of first k)) \<and>
           elems t = map (arithmetic_mean (first # rest) k) [0..<prod_list (shape t)]"
proof -
  let ?ws = "first # rest"
  let ?s = "shape (the (map_of first k))"
  let ?rows = "map (\<lambda>w. elems (the (map_of w k))) ?ws"
  let ?t = "\<lparr>dtype = Float_dtype, shape = ?s,
             elems = map (\<lambda>column. sum_list column / real (Suc (length rest))) (transpose ?rows)\<rparr>"
  from federated_averaging_succeeds [OF comp fl]
  obtain new where new: "federated_averaging ?ws = Inr new" by blast
  then have loop: "averaging_loop (map fst first) ?ws [] = Inr new"
    by (simp add: federated_averaging_def)
  from comp k have kc: "key_compatible first ?ws k"
    by (auto simp: compatible_def list_all_iff)
  have ap: "averaged_param ?ws k = Inr ?t"
    using kc fl by (rule averaged_param_compatible)
  have mo: "map_of new k = Some ?t"
    using averaging_loop_map_of [OF loop, of k] k ap by simp
  have len: "\<forall>r\<in>set ?rows. length r = prod_list ?s"
  proof
    fix r assume "r \<in> set ?rows"
    then obtain w where w: "w \<in> set ?ws" and r: "r = elems (the (map_of w k))" by auto
    from kc w obtain t' where t': "map_of w k = Some t'" and s': "shape t' = ?s"
      by (auto simp: key_compatible_def list_all_iff split: option.splits)
    from wf w have "well_formed_dict w" by blast
    from well_formed_lookup [OF this t'] s' r t' show "length r = prod_list ?s" by simp
  qed
  have ne: "?rows \<noteq> []" by simp
  have "elems ?t = map (\<lambda>j. (\<Sum>r\<leftarrow>?rows. r ! j) / real (Suc (length rest))) [0..<prod_list ?s]"
    using mean_columns [OF ne len] by simp
  also have "\<dots> = map (arithmetic_mean ?ws k) [0..<prod_list ?s]"
    by (simp add: arithmetic_mean_def param_elem_def comp_def)
  finally have el: "elems ?t = map (arithmetic_mean ?ws k) [0..<prod_list (shape ?t)]"
    by simp
  have "dtype ?t = Float_dtype" and "shape ?t = ?s" by simp_all
  with new mo el show ?thesis by blast
qed

lemma averaged_param_single:
  "map_of w k = Some t \<Longrightarrow>
     averaged_param [w] k = (if dtype t = Float_dtype then Inr t else Inl RuntimeError)"
  using mean_single [of t]
  by (simp add: averaged_param_def torch_stack_def torch_mean_dim0_def)

lemma averaging_loop_single_error:
  "\<forall>k\<in>set ks. map_of w k \<noteq> None \<Longrightarrow>
   \<exists>k\<in>set ks. dtype (the (map_of w k)) \<noteq> Float_dtype \<Longrightarrow>
     averaging_loop ks [w] acc = Inl RuntimeError"
proof (induction ks arbitrary: acc)
  case Nil
  then show ?case by simp
next
  case (Cons a ks)
  from Cons.prems(1) obtain t where t: "map_of w a = Some t" by auto
  show ?case
  proof (cases "dtype t = Float_dtype")
    case True
    with Cons.prems t have "\<exists>k\<in>set ks. dtype (the (map_of w k)) \<noteq> Float_dtype" by auto
    with Cons.IH Cons.prems(1) have "averaging_loop ks [w] (AList.update a t acc) = Inl RuntimeError"
      by simp
    with True t show ?thesis
      by (simp add: averaging_loop_step averaged_param_single del: averaging_loop.simps)
  next
    case False
    with t show ?thesis
      by (simp add: averaging_loop_step averaged_param_single del: averaging_loop.simps)
  qed
qed

lemma federated_averaging_single:
  assumes d: "distinct (map fst w)"
  shows "federated_averaging [w] = (if floating_dict w then Inr w else Inl RuntimeError)"
proof (cases "floating_dict w")
  case True
  have pres: "\<forall>k\<in>set (map fst w). map_of w k \<noteq> None"
    by (auto dest: weak_map_of_SomeI)
  have ap: "\<forall>k\<in>set (map fst w). averaged_param [w] k = Inr (the (map_of w k))"
  proof
    fix k assume "k \<in> set (map fst w)"
    with pres obtain t where t: "map_of w k = Some t" by auto
    with True have "dtype t = Float_dtype" by (rule floating_lookup)
    with t show "averaged_param [w] k = Inr (the (map_of w k))"
      by (simp add: averaged_param_single)
  qed
  then have "\<exists>r. averaging_loop (map fst w) [w] [] = Inr r"
    by (simp add: averaging_loop_total)
  then obtain r where loop: "averaging_loop (map fst w) [w] [] = Inr r" by blast
  from averaging_loop_distinct [OF d _ loop]
  have "r = map (\<lambda>k. (k, projr (averaged_param [w] k))) (map fst w)" by simp
  also have "\<dots> = map (\<lambda>k. (k, the (map_of w k))) (map fst w)"
    using ap by (simp cong: map_cong)
  also have "\<dots> = map (\<lambda>p. p) w"
    unfolding map_map using d by (intro map_cong refl) (auto simp: comp_def)
  finally show ?thesis using loop True by (simp add: federated_averaging_def)
next
  case False
  then obtain k t where kt: "(k, t) \<in> set w" and nf: "dtype t \<noteq> Float_dtype"
    by (auto simp: floating_dict_def list_all_iff)
  from d kt have mo: "map_of w k = Some t" by simp
  have pres: "\<forall>k\<in>set (map fst w). map_of w k \<noteq> None"
    by (auto dest: weak_map_of_SomeI)
  have "\<exists>k\<in>set (map fst w). dtype (the (map_of w k)) \<noteq> Float_dtype"
    using kt nf mo by force
  from averaging_loop_single_error [OF pres this] False show ?thesis
    by (simp add: federated_averaging_def)
qed

section \<open>The aggregation claims\<close>

text \<open>
  Claim C1, as the code has it. \<^verbatim>\<open>federated_averaging\<close> receives the parameter mappings
  only and takes no sample-count weight. When every worker of a round returned \<open>ok\<close> and the
  updates are compatible (each has every key of the first, with a tensor of the same shape),
  well formed and of floating dtype throughout, aggregation returns a state in which the
  tensor of each key \<open>k\<close> of the first update is floating, has the first update's shape and
  holds, at every position, the arithmetic mean of the workers' values. That value is the
  sample-count-weighted mean \<open>\<Sum>(weight_i * update_i[k]) / \<Sum>(weight_i)\<close> whenever
  all workers carry one positive weight \<open>c\<close>. Floats are idealised as reals, so the
  equalities are exact where the code rounds.
\<close>

theorem federated_averaging_mean:
  assumes ups: "ups = first # rest"
    and ok: "\<forall>u\<in>set ups. status u = Ok"
    and comp: "compatible (map update_params ups)"
    and wf: "\<forall>u\<in>set ups. well_formed_dict (update_params u)"
    and fl: "\<forall>u\<in>set ups. floating_dict (update_params u)"
    and k: "k \<in> fst ` set (update_params first)"
  shows "\<exists>new t. federated_averaging (map update_params ups) = Inr new \<and> map_of new k = Some t \<and>
           dtype t = Float_dtype \<and>
           shape t = shape (the (map_of (update_params first) k)) \<and>
           length (elems t) = prod_list (shape t) \<and>
           (\<forall>j < length (elems t).
              elems t ! j = arithmetic_mean (map update_params ups) k j \<and>
              ((\<forall>u\<in>set ups. weight u = c) \<and> 0 < c \<longrightarrow> elems t ! j = weighted_mean_spec ups k j))"
proof -
  let ?ws = "map update_params ups"
  have ws: "?ws = update_params first # map update_params rest" using ups by simp
  have wf': "\<forall>w\<in>set (update_params first # map update_params rest). well_formed_dict w"
    using wf ups by auto
  have fl': "\<forall>w\<in>set (update_params first # map update_params rest). floating_dict w"
    using fl ups by auto
  from federated_averaging_key [OF comp [unfolded ws] wf' fl' k]
  obtain new t where new: "federated_averaging ?ws = Inr new" and mo: "map_of new k = Some t"
    and dt: "dtype t = Float_dtype"
    and sh: "shape t = shape (the (map_of (update_params first) k))"
    and el: "elems t = map (arithmetic_mean ?ws k) [0..<prod_list (shape t)]"
    unfolding ws by blast
  have len: "length (elems t) = prod_list (shape t)"
    using el by (metis length_map length_upt minus_nat.diff_0)
  have "\<forall>j < length (elems t).
          elems t ! j = arithmetic_mean ?ws k j \<and>
          ((\<forall>u\<in>set ups. weight u = c) \<and> 0 < c \<longrightarrow> elems t ! j = weighted_mean_spec ups k j)"
  proof (intro allI impI)
    fix j assume j: "j < length (elems t)"
    then have "j < prod_list (shape t)" using len by simp
    then have am: "elems t ! j = arithmetic_mean ?ws k j"
      using el by (metis add_0 nth_map_upt minus_nat.diff_0)
    show "elems t ! j = arithmetic_mean ?ws k j \<and>
          ((\<forall>u\<in>set ups. weight u = c) \<and> 0 < c \<longrightarrow> elems t ! j = weighted_mean_spec ups k j)"
      using am weighted_equals_arithmetic [of ups c k j] by simp
  qed
  with new mo dt sh len show ?thesis by blast
qed

text \<open>Witness for C1: the two \<open>ok\<close> updates of the specification's scenario, values 2 and 4
  with weight 1, aggregate to 3, which is both means.\<close>

theorem federated_averaging_mean_witness:
  "federated_averaging (map update_params [update_w1, update_w2]) = Inr [(''a'', scalar 3)] \<and>
   arithmetic_mean (map update_params [update_w1, update_w2]) ''a'' 0 = 3 \<and>
   weighted_mean_spec [update_w1, update_w2] ''a'' 0 = 3"
proof -
  let ?ups = "[update_w1, update_w2]"
  have fa: "federated_averaging (map update_params ?ups) = Inr [(''a'', scalar 3)]"
    by (simp add: example_updates averaging_defs)
  have h1: "?ups = update_w1 # [update_w2]" by simp
  have h2: "\<forall>u\<in>set ?ups. status u = Ok" by (simp add: example_updates)
  have h3: "compatible (map update_params ?ups)"
    by (simp add: example_updates compatible_def key_compatible_def)
  have h4: "\<forall>u\<in>set ?ups. well_formed_dict (update_params u)"
    by (simp add: example_updates well_formed_dict_def well_formed_def)
  have h5: "\<forall>u\<in>set ?ups. floating_dict (update_params u)"
    by (simp add: example_updates floating_dict_def)
  have h6: "''a'' \<in> fst ` set (update_params update_w1)" by (simp add: example_updates)
  from federated_averaging_mean [OF h1 h2 h3 h4 h5 h6, of 1]
  obtain new t where new: "federated_averaging (map update_params ?ups) = Inr new"
    and t: "map_of new ''a'' = Some t"
    and all: "\<forall>j < length (elems t).
              elems t ! j = arithmetic_mean (map update_params ?ups) ''a'' j \<and>
              ((\<forall>u\<in>set ?ups. weight u = 1) \<and> 0 < (1::nat) \<longrightarrow> elems t ! j = weighted_mean_spec ?ups ''a'' j)"
    by blast
  from new fa have "new = [(''a'', scalar 3)]" by simp
  with t have t3: "t = scalar 3" by simp
  then have "0 < length (elems t)" by (simp add: scalar_def)
  with all have "elems t ! 0 = arithmetic_mean (map update_params ?ups) ''a'' 0"
    and "(\<forall>u\<in>set ?ups. weight u = 1) \<longrightarrow> elems t ! 0 = weighted_mean_spec ?ups ''a'' 0"
    by auto
  moreover have "\<forall>u\<in>set ?ups. weight u = 1" by (simp add: example_updates)
  moreover have "elems t ! 0 = 3" using t3 by (simp add: scalar_def)
  ultimately show ?thesis using fa by simp
qed

text \<open>
  Counterexample to C1 as worded (the weighted mean for every round): with weights 1 and 3 on
  the values 2 and 4 the weighted mean is \<open>7/2\<close>, and the code returns 3.
\<close>

theorem weighted_mean_counterexample:
  "federated_averaging (map update_params [update_w1, update_w2_heavy]) = Inr [(''a'', scalar 3)] \<and>
   weighted_mean_spec [update_w1, update_w2_heavy] ''a'' 0 = 7 / 2 \<and>
   param_elem [(''a'', scalar 3)] ''a'' 0 \<noteq> weighted_mean_spec [update_w1, update_w2_heavy] ''a'' 0"
  by (simp add: example_updates averaging_defs weighted_mean_spec_def param_elem_def)

text \<open>
  Claim C2, as the code has it. \<^verbatim>\<open>federated_averaging\<close> takes no minimum-workers threshold.
  For a list of updates with fewer \<open>ok\<close> updates than the threshold, it raises
  \<^verbatim>\<open>IndexError\<close> exactly when there is no \<open>ok\<close> update at all; and whenever the \<open>ok\<close>
  updates are compatible and floating (which takes at least one of them) it returns an
  aggregated state, the quorum unmet.
\<close>

theorem aggregation_below_quorum:
  assumes "\<not> quorum_met min_workers ups"
  shows "((federated_averaging (map update_params (ok_updates ups)) = Inl IndexError) =
            (ok_updates ups = [])) \<and>
         (compatible (map update_params (ok_updates ups)) \<and>
          (\<forall>u\<in>set (ok_updates ups). floating_dict (update_params u)) \<longrightarrow>
            (\<exists>new. federated_averaging (map update_params (ok_updates ups)) = Inr new))"
proof (intro conjI impI)
  show "(federated_averaging (map update_params (ok_updates ups)) = Inl IndexError) =
      (ok_updates ups = [])"
    by (cases "ok_updates ups")
       (auto simp: federated_averaging_def dest: averaging_loop_error simp del: averaging_loop.simps)
next
  assume "compatible (map update_params (ok_updates ups)) \<and>
          (\<forall>u\<in>set (ok_updates ups). floating_dict (update_params u))"
  then show "\<exists>new. federated_averaging (map update_params (ok_updates ups)) = Inr new"
    by (intro federated_averaging_succeeds) auto
qed

text \<open>Witness for C2, with a threshold of 2: one \<open>ok\<close> update and one timeout aggregate to
  the \<open>ok\<close> update's values; a lone timeout leaves nothing to index and raises
  \<^verbatim>\<open>IndexError\<close>.\<close>

theorem aggregation_below_quorum_witness:
  "\<not> quorum_met 2 [update_w1, update_w3] \<and>
   federated_averaging (map update_params (ok_updates [update_w1, update_w3])) = Inr [(''a'', scalar 2)] \<and>
   \<not> quorum_met 2 [update_w3] \<and>
   ok_updates [update_w3] = [] \<and>
   federated_averaging (map update_params (ok_updates [update_w3])) = Inl IndexError"
proof -
  have q1: "\<not> quorum_met 2 [update_w1, update_w3]"
    by (simp add: example_updates quorum_met_def ok_updates_def)
  have q2: "\<not> quorum_met 2 [update_w3]"
    by (simp add: example_updates quorum_met_def ok_updates_def)
  have c: "compatible (map update_params (ok_updates [update_w1, update_w3])) \<and>
           (\<forall>u\<in>set (ok_updates [update_w1, update_w3]). floating_dict (update_params u))"
    by (simp add: example_updates compatible_def key_compatible_def ok_updates_def floating_dict_def)
  have v: "federated_averaging (map update_params (ok_updates [update_w1, update_w3])) =
           Inr [(''a'', scalar 2)]"
    by (simp add: example_updates averaging_defs ok_updates_def)
  have e: "ok_updates [update_w3] = []" by (simp add: example_updates ok_updates_def)
  from aggregation_below_quorum [OF q1] c
  have "\<exists>new. federated_averaging (map update_params (ok_updates [update_w1, update_w3])) = Inr new"
    by blast
  moreover from aggregation_below_quorum [OF q2] e
  have "federated_averaging (map update_params (ok_updates [update_w3])) = Inl IndexError"
    by blast
  ultimately show ?thesis using q1 q2 v e by blast
qed

text \<open>
  Counterexample to C2 as worded: with a threshold of 2 and a single \<open>ok\<close> update among two
  workers the quorum is not met, and the code returns an aggregated state.
\<close>

theorem quorum_counterexample:
  "\<not> quorum_met 2 [update_w1, update_w3] \<and>
   federated_averaging (map update_params (ok_updates [update_w1, update_w3])) = Inr [(''a'', scalar 2)]"
  by (simp add: example_updates averaging_defs quorum_met_def ok_updates_def)

text \<open>
  Claim C4, as the code has it. When exactly one update is \<open>ok\<close> and all its tensors are
  floating, aggregation returns that update's parameter mapping unchanged: the same keys in
  the same order, each with the same tensor. When one of its tensors is integer or boolean,
  \<^verbatim>\<open>torch.mean\<close> refuses it and aggregation raises \<^verbatim>\<open>RuntimeError\<close>. (The keys of a Python
  dictionary are distinct.)
\<close>

theorem single_update_identity:
  "ok_updates ups = [u] \<Longrightarrow> distinct (map fst (update_params u)) \<Longrightarrow>
     federated_averaging (map update_params (ok_updates ups)) =
       (if floating_dict (update_params u) then Inr (update_params u) else Inl RuntimeError)"
  by (simp add: federated_averaging_single)

text \<open>Witness for C4: worker 1 \<open>ok\<close> with a floating tensor, worker 3 timed out.\<close>

theorem single_update_identity_witness:
  "ok_updates [update_w1, update_w3] = [update_w1] \<and>
   distinct (map fst (update_params update_w1)) \<and>
   floating_dict (update_params update_w1) \<and>
   federated_averaging (map update_params (ok_updates [update_w1, update_w3])) =
     Inr (update_params update_w1)"
proof -
  have h1: "ok_updates [update_w1, update_w3] = [update_w1]"
    by (simp add: ok_updates_def example_updates)
  have h2: "distinct (map fst (update_params update_w1))" by (simp add: example_updates)
  have h3: "floating_dict (update_params update_w1)" by (simp add: example_updates floating_dict_def)
  from single_update_identity [OF h1 h2] h1 h2 h3 show ?thesis by simp
qed

text \<open>
  Counterexample to C4 as worded (every single update): an update that holds an integer batch
  counter is not returned; aggregation raises \<^verbatim>\<open>RuntimeError\<close>.
\<close>

theorem integer_tensor_counterexample:
  "ok_updates [update_counter] = [update_counter] \<and>
   federated_averaging (map update_params (ok_updates [update_counter])) = Inl RuntimeError"
  by (simp add: example_updates averaging_defs ok_updates_def)

section \<open>The job submission claims\<close>

text \<open>
  Claim C3, as the code has it. There is no allow-list and no compile error:
  \<^verbatim>\<open>to_vm_instructions\<close> puts the job's own requirements into \<^verbatim>\<open>allowed_imports\<close>, whatever
  they are, and \<^verbatim>\<open>submit_job\<close> then runs the simulated execution (it prints that validation
  passed, that training executes and that it completed) and returns a result with
  \<^verbatim>\<open>success = True\<close> and no error message. This holds for every job whose \<^verbatim>\<open>epochs\<close>
  setting is absent or an integer, the values \<^verbatim>\<open>range\<close> accepts.
\<close>

theorem submit_job_never_compile_error:
  "is_int (epochs_value job) \<Longrightarrow>
     map (allowed_imports \<circ> instr_constraints) (to_vm_instructions job) = [requirements job] \<and>
     (\<exists>r out'. submit_job hash job out = (Inr r, out') \<and> success r \<and> error_message r = None \<and>
        Code_validation_passed \<in> set out' \<and> Executing_training \<in> set out' \<and>
        Training_completed \<in> set out')"
  by (simp add: submit_job_int to_vm_instructions_def in_training_progress fixed_lines_def)

text \<open>Witness for C3: the transformer job with \<^verbatim>\<open>subprocess\<close> as its only requirement.\<close>

theorem submit_job_never_compile_error_witness:
  "is_int (epochs_value job_disallowed) \<and>
   map (allowed_imports \<circ> instr_constraints) (to_vm_instructions job_disallowed) = [[''subprocess'']] \<and>
   (\<exists>r out'. submit_job length_hash job_disallowed [] = (Inr r, out') \<and> success r \<and>
      error_message r = None \<and> Code_validation_passed \<in> set out' \<and>
      Executing_training \<in> set out' \<and> Training_completed \<in> set out')"
proof -
  have h: "is_int (epochs_value job_disallowed)" by simp
  have r: "requirements job_disallowed = [''subprocess'']" by (simp add: example_jobs)
  from submit_job_never_compile_error [OF h, of length_hash "[]"] h r show ?thesis by simp
qed

text \<open>
  Counterexample to C3 as worded: a job requiring \<^verbatim>\<open>subprocess\<close>, which is not on the example
  allow-list, is executed and reported successful.
\<close>

theorem disallowed_import_counterexample:
  "''subprocess'' \<in> set (requirements job_disallowed) \<and>
   ''subprocess'' \<notin> set example_allow_list \<and>
   map_sum id success (fst (submit_job length_hash job_disallowed [])) = Inr True \<and>
   Executing_training \<in> set (snd (submit_job length_hash job_disallowed []))"
  by (simp add: submit_job_int in_training_progress fixed_lines_def)
     (simp add: example_jobs example_allow_list_def)

section \<open>The ledger claims\<close>

text \<open>
  Claim C5. The reward \<^verbatim>\<open>settle\<close> returns is never negative, and it is
  \<open>base_reward * completion_fraction - resource_penalty\<close> floored at zero, where
  \<open>completion_fraction\<close> is the rounds completed divided by the rounds configured and
  \<open>resource_penalty\<close> is zero when the resource consumed is within the envelope: the reward
  equals the formula whenever the penalty does not exceed \<open>base_reward * completion_fraction\<close>,
  and is zero otherwise. \<^verbatim>\<open>settle\<close> is the one modelled from the specification.
\<close>

theorem settle_floored:
  "0 \<le> settle a \<and>
   settle a = max 0 (real (base_reward a) * (real (rounds_completed a) / real (rounds_configured a))
                     - resource_penalty a) \<and>
   (resource_used a \<le> resource_envelope a \<longrightarrow> resource_penalty a = 0) \<and>
   (resource_penalty a \<le> real (base_reward a) * completion_fraction a \<longrightarrow>
      settle a = real (base_reward a) * completion_fraction a - resource_penalty a)"
  by (simp add: settle_def completion_fraction_def resource_penalty_def)

text \<open>Witness for C5: 8 of 10 rounds of a 1500-token job within its envelope settle at 1200
  with no penalty; the same job 4000 units beyond its envelope settles at 0.\<close>

theorem settle_floored_witness:
  "resource_used settlement_within \<le> resource_envelope settlement_within \<and>
   resource_penalty settlement_within = 0 \<and>
   settle settlement_within = 1200 \<and>
   settle settlement_beyond = 0"
proof -
  have h: "resource_used settlement_within \<le> resource_envelope settlement_within"
    by (simp add: settlement_within_def)
  have f: "real (base_reward settlement_within) * completion_fraction settlement_within = 1200"
    by (simp add: settlement_within_def completion_fraction_def)
  have b: "real (base_reward settlement_beyond) * completion_fraction settlement_beyond
             - resource_penalty settlement_beyond = - 2800"
    by (simp add: settlement_beyond_def completion_fraction_def resource_penalty_def)
  from settle_floored [of settlement_within] h f
  have "resource_penalty settlement_within = 0" and "settle settlement_within = 1200" by auto
  moreover from settle_floored [of settlement_beyond] b
  have "settle settlement_beyond = 0" by (simp add: completion_fraction_def)
  ultimately show ?thesis using h by simp
qed

text \<open>
  Claim C6. Charging a job again for a round index already charged leaves the ledger as it
  was after the first charge, also when the second record differs from the first in its
  other fields. The ledger is the one modelled from the specification.
\<close>

theorem charge_idempotent:
  "round_index rr' = round_index rr \<Longrightarrow> charge jid rr' (charge jid rr l) = charge jid rr l"
  by (simp add: charge_def)

text \<open>Witness for C6: round 0 of one job charged twice, the second time with another
  record; the job is charged the 1000 units of the first.\<close>

theorem charge_idempotent_witness:
  "round_index round0_retry = round_index round0 \<and>
   charge ''job_26'' round0_retry (charge ''job_26'' round0 empty_ledger) =
     charge ''job_26'' round0 empty_ledger \<and>
   total_charged (charge ''job_26'' round0_retry (charge ''job_26'' round0 empty_ledger)) ''job_26'' = 1000"
proof -
  have h: "round_index round0_retry = round_index round0" by (simp add: round0_def round0_retry_def)
  have "total_charged (charge ''job_26'' round0 empty_ledger) ''job_26'' = 1000"
    by (simp add: total_charged_def charge_def empty_ledger_def round0_def)
  with charge_idempotent [OF h, of "''job_26''" empty_ledger] h show ?thesis by simp
qed

section \<open>Job identifiers, compilation and constraints\<close>

text \<open>
  Claim C7, as the code has it. The job id is \<^verbatim>\<open>job_\<close> followed by the decimal hash of the
  job's name, so it depends on the name alone: two submitted jobs get the same id exactly when
  the hashes of their names are equal, and in particular whenever they share a name. This
  holds for all jobs whose \<^verbatim>\<open>epochs\<close> setting is absent or an integer.
\<close>

theorem job_id_from_name:
  "is_int (epochs_value j1) \<Longrightarrow> is_int (epochs_value j2) \<Longrightarrow>
     \<exists>r1 o1 r2 o2. submit_job hash j1 out1 = (Inr r1, o1) \<and> submit_job hash j2 out2 = (Inr r2, o2) \<and>
        job_id r1 = ''job_'' @ str_int (hash (name j1)) \<and>
        (job_id r1 = job_id r2) = (hash (name j1) = hash (name j2)) \<and>
        (name j1 = name j2 \<longrightarrow> job_id r1 = job_id r2)"
  using str_int_inj [of "hash (name j1)" "hash (name j2)"] by (auto simp: submit_job_int)

text \<open>Witness for C7: the transformer job and a job of the same name with other code and
  another reward.\<close>

theorem job_id_from_name_witness:
  "is_int (epochs_value transformer_job) \<and> is_int (epochs_value job_same_name) \<and>
   name transformer_job = name job_same_name \<and>
   (\<exists>r1 o1 r2 o2. submit_job length_hash transformer_job [] = (Inr r1, o1) \<and>
      submit_job length_hash job_same_name [] = (Inr r2, o2) \<and> job_id r1 = job_id r2)"
proof -
  have h1: "is_int (epochs_value transformer_job)" by simp
  have h2: "is_int (epochs_value job_same_name)" by simp
  have n: "name transformer_job = name job_same_name" by (simp add: example_jobs)
  from job_id_from_name [OF h1 h2, of length_hash "[]" "[]"] n h1 h2 show ?thesis by metis
qed

text \<open>
  Counterexample to C7 as worded: two distinct jobs with one name are both given the id
  \<^verbatim>\<open>job_26\<close> (under the example hash, the length of the name).
\<close>

theorem job_id_counterexample:
  "transformer_job \<noteq> job_same_name \<and>
   map_sum id job_id (fst (submit_job length_hash transformer_job [])) = Inr ''job_26'' \<and>
   map_sum id job_id (fst (submit_job length_hash job_same_name [])) = Inr ''job_26''"
  by (simp add: submit_job_int)
     (simp add: example_jobs length_hash_def str_int_def str_nat.simps digit_char_def)

text \<open>
  Claim C8. \<^verbatim>\<open>to_vm_instructions\<close> is a function of its input: jobs that agree on the code,
  on \<^verbatim>\<open>resources.get("memory_mb", 2048)\<close> and on the requirements, hence identical jobs, get
  identical instruction lists with identical constraints. It has no effect on standard
  output: what \<^verbatim>\<open>submit_job\<close> leaves there is what the simulated execution leaves after the
  line announcing the submission.
\<close>

theorem to_vm_instructions_pure:
  "code j1 = code j2 \<Longrightarrow>
   dict_get (resources j1) ''memory_mb'' (VInt 2048) = dict_get (resources j2) ''memory_mb'' (VInt 2048) \<Longrightarrow>
   requirements j1 = requirements j2 \<Longrightarrow>
     to_vm_instructions j1 = to_vm_instructions j2 \<and>
     snd (submit_job hash j1 out) = snd (simulate_job_execution j1 (print (Submitting_job (name j1)) out))"
  by (cases "simulate_job_execution j1 (print (Submitting_job (name j1)) out)")
     (auto simp: to_vm_instructions_def submit_job_def split: sum.splits)

text \<open>Witness for C8: two jobs that differ in the reward only.\<close>

theorem to_vm_instructions_pure_witness:
  "code transformer_job = code job_negative_reward \<and>
   requirements transformer_job = requirements job_negative_reward \<and>
   to_vm_instructions transformer_job = to_vm_instructions job_negative_reward"
proof -
  have h1: "code transformer_job = code job_negative_reward" by (simp add: example_jobs)
  have h2: "dict_get (resources transformer_job) ''memory_mb'' (VInt 2048) =
            dict_get (resources job_negative_reward) ''memory_mb'' (VInt 2048)"
    by (simp add: example_jobs)
  have h3: "requirements transformer_job = requirements job_negative_reward" by (simp add: example_jobs)
  from to_vm_instructions_pure [OF h1 h2 h3] h1 h3 show ?thesis by blast
qed

text \<open>
  Claim C9, as the code has it. The constraints of the one instruction are
  \<^verbatim>\<open>max_memory_mb = resources.get("memory_mb", 2048)\<close>, the constant
  \<^verbatim>\<open>max_execution_time_ms = 300000\<close> and \<^verbatim>\<open>allowed_imports = requirements\<close>. The simulated
  execution is not given them: it receives the job and its outcome depends on the job's
  \<^verbatim>\<open>epochs\<close> setting alone, so jobs with one \<^verbatim>\<open>epochs\<close> setting are executed alike whatever
  their constraints.
\<close>

theorem constraints_record:
  "epochs_value job = epochs_value job' \<Longrightarrow>
     map instr_constraints (to_vm_instructions job) =
       [\<lparr>max_memory_mb = dict_get (resources job) ''memory_mb'' (VInt 2048),
         max_execution_time_ms = 300000,
         allowed_imports = requirements job\<rparr>] \<and>
     simulate_job_execution job out = simulate_job_execution job' out"
  by (simp add: to_vm_instructions_def simulate_job_execution_def epochs_value_def)

text \<open>Witness for C9: the transformer job and its variant with other resources and
  requirements.\<close>

theorem constraints_record_witness:
  "epochs_value transformer_job = epochs_value job_other_limits \<and>
   simulate_job_execution transformer_job [] = simulate_job_execution job_other_limits []"
proof -
  have h: "epochs_value transformer_job = epochs_value job_other_limits" by simp
  from constraints_record [OF h] h show ?thesis by blast
qed

text \<open>
  Counterexample to C9 as worded: the transformer job declares 32 GB of memory under
  \<^verbatim>\<open>memory_gb\<close> and gets the default 2048 MB and the constant time limit; a variant with
  other constraints (1 MB, no imports allowed) is executed in exactly the same way.
\<close>

theorem constraints_not_threaded_counterexample:
  "map instr_constraints (to_vm_instructions transformer_job) =
     [\<lparr>max_memory_mb = VInt 2048, max_execution_time_ms = 300000,
       allowed_imports = [''torch>=2.0.0'', ''transformers>=4.35.0'', ''datasets>=2.14.0'']\<rparr>] \<and>
   map instr_constraints (to_vm_instructions job_other_limits) =
     [\<lparr>max_memory_mb = VInt 1, max_execution_time_ms = 300000, allowed_imports = []\<rparr>] \<and>
   simulate_job_execution transformer_job [] = simulate_job_execution job_other_limits []"
  by (simp add: simulate_int) (simp add: example_jobs to_vm_instructions_def dict_get_def)

text \<open>
  Claim C10, as the code has it. For every job whose \<^verbatim>\<open>epochs\<close> setting is absent or an
  integer, \<^verbatim>\<open>submit_job\<close> returns a result with \<^verbatim>\<open>success = True\<close>, \<^verbatim>\<open>gas_used = 1000\<close>,
  \<^verbatim>\<open>model_hash = "abc123def456"\<close> and \<^verbatim>\<open>reward_earned\<close> equal to the job's
  \<^verbatim>\<open>reward_tokens\<close>; for any other \<^verbatim>\<open>epochs\<close> value it raises \<^verbatim>\<open>TypeError\<close> and returns
  no result.
\<close>

theorem submit_job_constants:
  "(is_int (epochs_value job) \<longrightarrow>
      (\<exists>r out'. submit_job hash job out = (Inr r, out') \<and> success r \<and> gas_used r = 1000 \<and>
         model_hash r = Some ''abc123def456'' \<and> reward_earned r = reward_tokens job)) \<and>
   (\<not> is_int (epochs_value job) \<longrightarrow> fst (submit_job hash job out) = Inl TypeError)"
  by (simp add: submit_job_int submit_job_not_int)

text \<open>Witness for C10: the transformer job, and its variant with \<^verbatim>\<open>epochs = "ten"\<close>.\<close>

theorem submit_job_constants_witness:
  "is_int (epochs_value transformer_job) \<and>
   (\<exists>r out'. submit_job length_hash transformer_job [] = (Inr r, out') \<and> success r \<and>
      gas_used r = 1000 \<and> model_hash r = Some ''abc123def456'' \<and> reward_earned r = 1500) \<and>
   \<not> is_int (epochs_value job_text_epochs) \<and>
   fst (submit_job length_hash job_text_epochs []) = Inl TypeError"
proof -
  have h1: "is_int (epochs_value transformer_job)" by simp
  have h2: "\<not> is_int (epochs_value job_text_epochs)" by simp
  have r: "reward_tokens transformer_job = 1500" by (simp add: example_jobs)
  from submit_job_constants [of transformer_job length_hash "[]"]
       submit_job_constants [of job_text_epochs length_hash "[]"] h1 h2 r
  show ?thesis by auto
qed

text \<open>
  Counterexample to C10 as worded (for every job): with \<^verbatim>\<open>epochs = "ten"\<close> the call raises
  \<^verbatim>\<open>TypeError\<close>.
\<close>

theorem text_epochs_counterexample:
  "fst (submit_job length_hash job_text_epochs []) = Inl TypeError"
  by (simp add: submit_job_not_int)

end
